theory Spec2Isabelle
  imports Main "HOL-Library.Sublist"
begin

section \<open>The user and privilege administration page (pages/14\_Users.py)\<close>

text \<open>
  The page is a Streamlit script: helper functions (\<open>sanitize_user\<close>, \<open>sanitize_host\<close>,
  \<open>exec_admin\<close>, \<open>list_users\<close>, \<open>get_grants\<close>) followed by one block of code per button.
  Each block is embedded as a function from the values of its input widgets and the
  state of the world to the state of the world afterwards.

  Python strings are modelled as \<open>string\<close> (lists of 8-bit characters, the UTF-8 bytes
  of the text). Both sanitizers keep ASCII characters only, and every byte of a
  non-ASCII code point is at least 128, so filtering bytes and filtering code points
  agree.
\<close>

subsection \<open>Python string operations used by the page\<close>

text \<open>The single quote, which cannot end an Isabelle string literal.\<close>

abbreviation sq :: string where
  "sq \<equiv> [CHR 0x27]"

text \<open>\<open>sep.join(xs)\<close>\<close>

fun join :: "string \<Rightarrow> string list \<Rightarrow> string" where
  "join sep [] = []"
| "join sep [x] = x"
| "join sep (x # y # ys) = x @ sep @ join sep (y # ys)"

text \<open>\<open>s.startswith(p)\<close>\<close>

fun startswith :: "string \<Rightarrow> string \<Rightarrow> bool" where
  "startswith s [] = True"
| "startswith [] (p # ps) = False"
| "startswith (c # cs) (p # ps) = (c = p \<and> startswith cs ps)"

text \<open>\<open>s or d\<close> on strings: the empty string is falsy.\<close>

definition str_or :: "string \<Rightarrow> string \<Rightarrow> string" where
  "str_or s d = (if s = [] then d else s)"

subsection \<open>Identifier sanitizers\<close>

text \<open>A character range \<open>lo-hi\<close> of a regular-expression character class.\<close>

definition in_range :: "char \<Rightarrow> char \<Rightarrow> char \<Rightarrow> bool" where
  "in_range lo hi c = ((of_char lo :: nat) \<le> of_char c \<and> (of_char c :: nat) \<le> of_char hi)"

text \<open>The class \<open>[a-zA-Z0-9_]\<close>.\<close>

definition user_char :: "char \<Rightarrow> bool" where
  "user_char c = (in_range CHR ''a'' CHR ''z'' c \<or> in_range CHR ''A'' CHR ''Z'' c
     \<or> in_range CHR ''0'' CHR ''9'' c \<or> c = CHR ''_'')"

text \<open>The class \<open>[a-zA-Z0-9_%.:-]\<close>; the final \<open>-\<close> is a literal.\<close>

definition host_char :: "char \<Rightarrow> bool" where
  "host_char c = (in_range CHR ''a'' CHR ''z'' c \<or> in_range CHR ''A'' CHR ''Z'' c
     \<or> in_range CHR ''0'' CHR ''9'' c \<or> c = CHR ''_'' \<or> c = CHR ''%'' \<or> c = CHR ''.''
     \<or> c = CHR '':'' \<or> c = CHR ''-'')"

text \<open>
  \<open>re.sub(r"[^a-zA-Z0-9_]", "", s)\<close> deletes every character matched by the negated
  class, that is, keeps the characters of the class in their order.
\<close>

definition sanitize_user :: "string \<Rightarrow> string" where
  "sanitize_user s = filter user_char s"

definition sanitize_host :: "string \<Rightarrow> string" where
  "sanitize_host s = filter host_char s"

subsection \<open>The world: store, statements sent, page output\<close>

text \<open>A result row is a dictionary from column to value, kept in column order.\<close>

type_synonym row = "(string \<times> string) list"

text \<open>A statement as handed to \<open>cursor.execute\<close>: text and bound parameters.\<close>

type_synonym stmt = "string \<times> string list"

text \<open>
  The database driver and server are outside the repository. They are a parameter:
  executing a statement with its parameters on a session that sees the data \<open>db\<close>
  either raises an exception \<open>e\<close> (\<open>Inl (str e)\<close>) or gives the data afterwards and
  the rows that \<open>fetchall\<close> returns.
\<close>

type_synonym 'db driver = "'db \<Rightarrow> string \<Rightarrow> string list \<Rightarrow> string + ('db \<times> row list)"

text \<open>What the page shows: \<open>st.error\<close>, \<open>st.success\<close>, \<open>st.warning\<close>, \<open>st.info\<close>,
  and \<open>st.dataframe\<close> of the one-column frame of grants.\<close>

datatype ui = StError string | StSuccess string | StWarning string | StInfo string
  | StDataframe "string list"

record 'db world =
  store :: 'db
  sent :: "stmt list"
  shown :: "ui list"
  users_df :: "row list"

text \<open>
  \<open>store\<close> is the committed data of the backing store, \<open>sent\<close> records every statement
  passed to the store, oldest first, \<open>shown\<close> is the output of the page, oldest
  first, and \<open>users_df\<close> is the script variable of that name.
\<close>

definition st_error :: "string \<Rightarrow> 'db world \<Rightarrow> 'db world" where
  "st_error m w = w\<lparr>shown := shown w @ [StError m]\<rparr>"

definition st_success :: "string \<Rightarrow> 'db world \<Rightarrow> 'db world" where
  "st_success m w = w\<lparr>shown := shown w @ [StSuccess m]\<rparr>"

definition st_warning :: "string \<Rightarrow> 'db world \<Rightarrow> 'db world" where
  "st_warning m w = w\<lparr>shown := shown w @ [StWarning m]\<rparr>"

definition st_info :: "string \<Rightarrow> 'db world \<Rightarrow> 'db world" where
  "st_info m w = w\<lparr>shown := shown w @ [StInfo m]\<rparr>"

text \<open>The statements a run has passed to the store: those of \<open>w'\<close> that \<open>w\<close> had not.\<close>

definition issued :: "'db world \<Rightarrow> 'db world \<Rightarrow> stmt list" where
  "issued w w' = drop (length (sent w)) (sent w')"

subsection \<open>Sessions\<close>

record 'db conn =
  at_begin :: 'db
  current :: 'db

text \<open>
  Modelled from the spec: \<open>get_connection\<close> is imported from the module \<open>db\<close>, which is
  not among the sources. The spec has one session acquired per call, on the store as
  it is; acquisition is taken to succeed.
\<close>

definition get_connection :: "'db world \<Rightarrow> 'db conn" where
  "get_connection w = \<lparr>at_begin = store w, current = store w\<rparr>"

definition commit :: "'db conn \<Rightarrow> 'db world \<Rightarrow> 'db world" where
  "commit c w = w\<lparr>store := current c\<rparr>"

definition rollback :: "'db conn \<Rightarrow> 'db world \<Rightarrow> 'db world" where
  "rollback c w = w\<lparr>store := at_begin c\<rparr>"

text \<open>
  Modelled from the spec: \<open>run_query\<close> is imported from the module \<open>db\<close>, which is not
  among the sources. The spec's \<open>query(text)\<close> is for read-only use: the text is sent,
  the rows come back or the store's error is raised, and the store keeps its data.
\<close>

definition run_query :: "'db driver \<Rightarrow> string \<Rightarrow> 'db world \<Rightarrow> (string + row list) \<times> 'db world" where
  "run_query run sql w =
     (let w1 = w\<lparr>sent := sent w @ [(sql, [])]\<rparr>
      in case run (store w) sql [] of
           Inr (db', rows) \<Rightarrow> (Inr rows, w1)
         | Inl e \<Rightarrow> (Inl e, w1))"

subsection \<open>Helpers of the page\<close>

text \<open>
  \<open>exec_admin(sql, params=None, fetch=False)\<close>: one statement on a session of its own,
  committed when it succeeds, rolled back when it raises; the result is the pair
  \<open>(rows, None)\<close> or \<open>(None, str(e))\<close>.
\<close>

definition exec_admin ::
  "'db driver \<Rightarrow> string \<Rightarrow> string list option \<Rightarrow> bool \<Rightarrow> 'db world
    \<Rightarrow> (row list option \<times> string option) \<times> 'db world" where
  "exec_admin run sql params fetch w =
     (let conn = get_connection w;
          args = (case params of None \<Rightarrow> [] | Some ps \<Rightarrow> ps);
          w1 = w\<lparr>sent := sent w @ [(sql, args)]\<rparr>
      in case run (current conn) sql args of
           Inr (db', fetched) \<Rightarrow>
             (let rows = (if fetch then Some fetched else None)
              in ((rows, None), commit (conn\<lparr>current := db'\<rparr>) w1))
         | Inl e \<Rightarrow> ((None, Some e), rollback conn w1))"

text \<open>\<open>if err:\<close> on the second component: \<open>None\<close> and the empty string are falsy.\<close>

definition truthy :: "string option \<Rightarrow> bool" where
  "truthy err = (case err of None \<Rightarrow> False | Some e \<Rightarrow> e \<noteq> [])"

text \<open>\<open>{err}\<close> inside an f-string.\<close>

definition fmt :: "string option \<Rightarrow> string" where
  "fmt err = (case err of None \<Rightarrow> ''None'' | Some e \<Rightarrow> e)"

definition list_users :: "'db driver \<Rightarrow> 'db world \<Rightarrow> row list \<times> 'db world" where
  "list_users run w =
     (case run_query run ''SELECT user AS User, host AS Host FROM mysql.user ORDER BY user, host;'' w of
        (Inr rows, w1) \<Rightarrow> (rows, w1)
      | (Inl e, w1) \<Rightarrow>
          ([], st_warning (''Could not list users (need admin privileges): '' @ e) w1))"

text \<open>
  The loop \<open>for r in rows: grants.append(list(r.values())[0])\<close>; a row without a column
  raises IndexError.
\<close>

fun first_values :: "row list \<Rightarrow> string list option" where
  "first_values [] = Some []"
| "first_values ([] # rs) = None"
| "first_values (((k, v) # r) # rs) =
     (case first_values rs of None \<Rightarrow> None | Some vs \<Rightarrow> Some (v # vs))"

text \<open>
  \<open>get_grants(user, host)\<close>: the result is the column \<open>Grant\<close> of the frame; the empty
  list is the empty frame.
\<close>

definition get_grants ::
  "'db driver \<Rightarrow> string \<Rightarrow> string \<Rightarrow> 'db world \<Rightarrow> string list \<times> 'db world" where
  "get_grants run user host w =
     (let conn = get_connection w;
          sql = ''SHOW GRANTS FOR `'' @ user @ ''`@'' @ sq @ host @ ''';'';
          w1 = w\<lparr>sent := sent w @ [(sql, [])]\<rparr>;
          could_not = ''Could not fetch grants for '' @ user @ ''@'' @ host @ '': ''
      in case run (current conn) sql [] of
           Inr (db', rows) \<Rightarrow>
             (let w2 = commit (conn\<lparr>current := db'\<rparr>) w1
              in case first_values rows of
                   Some grants \<Rightarrow> (grants, w2)
                 | None \<Rightarrow> ([], st_warning (could_not @ ''list index out of range'') w2))
         | Inl e \<Rightarrow> ([], st_warning (could_not @ e) w1))"

subsection \<open>The button handlers\<close>

text \<open>
  The script variable \<open>schema\<close> (\<open>db_name()\<close>, the session's \<open>db_name\<close> or \<open>asi\<close>) is a
  parameter of every handler that uses it.
\<close>

text \<open>Button "Show Grants": the two text inputs go to \<open>get_grants\<close> as they are.\<close>

definition show_grants_handler ::
  "'db driver \<Rightarrow> string \<Rightarrow> string \<Rightarrow> 'db world \<Rightarrow> 'db world" where
  "show_grants_handler run sel_user sel_host w =
     (if sel_user \<noteq> [] \<and> sel_host \<noteq> [] then
        (case get_grants run sel_user sel_host w of
           (gdf, w1) \<Rightarrow>
             if gdf = [] then st_info ''No grants returned.'' w1
             else w1\<lparr>shown := shown w1 @ [StDataframe gdf]\<rparr>)
      else w)"


definition create_user_handler ::
  "'db driver \<Rightarrow> string \<Rightarrow> string \<Rightarrow> string \<Rightarrow> string \<Rightarrow> string \<Rightarrow> 'db world \<Rightarrow> 'db world" where
  "create_user_handler run schema new_user new_host new_password preset w =
     (let u = sanitize_user new_user;
          h = sanitize_host (str_or new_host ''%'')
      in if u = [] \<or> new_password = [] then
           st_error ''Username and password are required.'' w
         else
           (case exec_admin run
                   (''CREATE USER `'' @ u @ ''`@'' @ sq @ h @ ''' IDENTIFIED BY %s;'')
                   (Some [new_password]) False w of
              ((_, err), w1) \<Rightarrow>
                if truthy err then st_error (''CREATE USER failed: '' @ fmt err) w1
                else
                  (let w2 = st_success (''User `'' @ u @ ''`@'' @ sq @ h @ ''' created.'') w1;
                       (err, w3) =
                         (if startswith preset ''Read-only'' then
                            (case exec_admin run
                                    (''GRANT SELECT ON `'' @ schema @ ''`.* TO `'' @ u @ ''`@''
                                       @ sq @ h @ ''';'')
                                    None False w2 of
                               ((_, err), w3) \<Rightarrow> (err, w3))
                          else if startswith preset ''Read/Write'' then
                            (case exec_admin run
                                    (''GRANT SELECT, INSERT, UPDATE, DELETE, EXECUTE ON `'' @ schema
                                       @ ''`.* TO `'' @ u @ ''`@'' @ sq @ h @ ''';'')
                                    None False w2 of
                               ((_, err), w3) \<Rightarrow> (err, w3))
                          else if startswith preset ''Admin'' then
                            (case exec_admin run
                                    (''GRANT ALL PRIVILEGES ON `'' @ schema @ ''`.* TO `'' @ u
                                       @ ''`@'' @ sq @ h @ ''';'')
                                    None False w2 of
                               ((_, err), w3) \<Rightarrow> (err, w3))
                          else (None, w2))
                   in if truthy err then st_error (''Grant failed: '' @ fmt err) w3
                      else
                        (let w4 = snd (exec_admin run ''FLUSH PRIVILEGES;'' None False w3);
                             w5 = st_success (''Preset '' @ sq @ preset @ ''' applied on `''
                                    @ schema @ ''`.*'') w4;
                             (rows, w6) = list_users run w5
                         in w6\<lparr>users_df := rows\<rparr>))))"

text \<open>Button "Update Password".\<close>

definition update_password_handler ::
  "'db driver \<Rightarrow> string \<Rightarrow> string \<Rightarrow> string \<Rightarrow> 'db world \<Rightarrow> 'db world" where
  "update_password_handler run ch_user ch_host ch_pass w =
     (let u = sanitize_user ch_user;
          h = sanitize_host (str_or ch_host ''%'')
      in if u = [] \<or> ch_pass = [] then
           st_error ''User and new password are required.'' w
         else
           (case exec_admin run
                   (''ALTER USER `'' @ u @ ''`@'' @ sq @ h @ ''' IDENTIFIED BY %s;'')
                   (Some [ch_pass]) False w of
              ((_, err), w1) \<Rightarrow>
                if truthy err then st_error (''ALTER USER failed: '' @ fmt err) w1
                else
                  (let w2 = snd (exec_admin run ''FLUSH PRIVILEGES;'' None False w1)
                   in st_success (''Password updated for `'' @ u @ ''`@'' @ sq @ h @ '''.'') w2)))"

text \<open>
  Button "GRANT Selected Privileges" or "REVOKE Selected Privileges". \<open>action\<close> is the
  selected option of the select box (\<open>GRANT\<close> or \<open>REVOKE\<close>), \<open>privs\<close> the options of
  the multi-select in the order of selection.
\<close>

definition grant_revoke_handler ::
  "'db driver \<Rightarrow> string \<Rightarrow> string \<Rightarrow> string \<Rightarrow> string \<Rightarrow> string list \<Rightarrow> 'db world
    \<Rightarrow> 'db world" where
  "grant_revoke_handler run schema gr_user gr_host action privs w =
     (let u = sanitize_user gr_user;
          h = sanitize_host (str_or gr_host ''%'')
      in if u = [] \<or> privs = [] then
           st_error ''User and at least one privilege are required.'' w
         else
           (let plist = join '', '' privs;
                ((_, err), w1) =
                  (if action = ''GRANT'' then
                     exec_admin run
                       (''GRANT '' @ plist @ '' ON `'' @ schema @ ''`.* TO `'' @ u @ ''`@'' @ sq
                          @ h @ ''';'')
                       None False w
                   else
                     exec_admin run
                       (''REVOKE '' @ plist @ '' ON `'' @ schema @ ''`.* FROM `'' @ u @ ''`@''
                          @ sq @ h @ ''';'')
                       None False w)
            in if truthy err then st_error (action @ '' failed: '' @ fmt err) w1
               else
                 (let w2 = snd (exec_admin run ''FLUSH PRIVILEGES;'' None False w1)
                  in st_success (action @ '' successful for `'' @ u @ ''`@'' @ sq @ h
                       @ ''` on `'' @ schema @ ''`.*'') w2)))"

text \<open>Button "Drop User".\<close>

definition drop_user_handler ::
  "'db driver \<Rightarrow> string \<Rightarrow> string \<Rightarrow> 'db world \<Rightarrow> 'db world" where
  "drop_user_handler run del_user del_host w =
     (let u = sanitize_user del_user;
          h = sanitize_host (str_or del_host ''%'')
      in if u = [] then st_error ''User is required.'' w
         else
           (case exec_admin run (''DROP USER `'' @ u @ ''`@'' @ sq @ h @ ''';'') None False w of
              ((_, err), w1) \<Rightarrow>
                if truthy err then st_error (''DROP USER failed: '' @ fmt err) w1
                else
                  (let w2 = snd (exec_admin run ''FLUSH PRIVILEGES;'' None False w1);
                       w3 = st_success (''User `'' @ u @ ''`@'' @ sq @ h @ ''' dropped.'') w2;
                       (rows, w4) = list_users run w3
                   in w4\<lparr>users_df := rows\<rparr>)))"

subsection \<open>Stores for concrete runs\<close>

text \<open>
  Two stores on which the handlers are run at concrete inputs. Their data is the list
  of the statement texts committed so far. The first accepts every statement, the
  second raises an error on every \<open>GRANT\<close> and accepts everything else, the third
  raises an error on every statement.
\<close>

definition accepting_store :: "string list driver" where
  "accepting_store db sql args = Inr (db @ [sql], [])"



definition w0 :: "string list world" where
  "w0 = \<lparr>store = [], sent = [], shown = [], users_df = []\<rparr>"

section \<open>The sanitizers\<close>

lemma char_mem_iff_code: "c \<in> set L \<longleftrightarrow> (of_char c :: nat) \<in> set (map of_char L)"
  by auto

lemma in_range_lower: "in_range CHR ''a'' CHR ''z'' c \<Longrightarrow> c \<in> set ''abcdefghijklmnopqrstuvwxyz''"
  unfolding in_range_def char_mem_iff_code[of c] by simp arith

lemma in_range_upper: "in_range CHR ''A'' CHR ''Z'' c \<Longrightarrow> c \<in> set ''ABCDEFGHIJKLMNOPQRSTUVWXYZ''"
  unfolding in_range_def char_mem_iff_code[of c] by simp arith

lemma in_range_digit: "in_range CHR ''0'' CHR ''9'' c \<Longrightarrow> c \<in> set ''0123456789''"
  unfolding in_range_def char_mem_iff_code[of c] by simp arith

lemma user_char_allowed:
  "user_char c \<Longrightarrow>
   c \<in> set (''abcdefghijklmnopqrstuvwxyz'' @ ''ABCDEFGHIJKLMNOPQRSTUVWXYZ'' @ ''0123456789'' @ ''_'')"
proof -
  assume "user_char c"
  then have "in_range CHR ''a'' CHR ''z'' c \<or> in_range CHR ''A'' CHR ''Z'' c
     \<or> in_range CHR ''0'' CHR ''9'' c \<or> c \<in> set ''_''"
    unfolding user_char_def by auto
  then show ?thesis
    unfolding set_append
    using in_range_lower[of c] in_range_upper[of c] in_range_digit[of c] by blast
qed

lemma host_char_allowed:
  "host_char c \<Longrightarrow>
   c \<in> set (''abcdefghijklmnopqrstuvwxyz'' @ ''ABCDEFGHIJKLMNOPQRSTUVWXYZ'' @ ''0123456789'' @ ''_%.:-'')"
proof -
  assume "host_char c"
  then have "in_range CHR ''a'' CHR ''z'' c \<or> in_range CHR ''A'' CHR ''Z'' c
     \<or> in_range CHR ''0'' CHR ''9'' c \<or> c \<in> set ''_%.:-''"
    unfolding host_char_def by auto
  then show ?thesis
    unfolding set_append
    using in_range_lower[of c] in_range_upper[of c] in_range_digit[of c] by blast
qed

lemma sanitize_user_chars:
  "set (sanitize_user s) \<subseteq> set ''abcdefghijklmnopqrstuvwxyzABCDEFGHIJKLMNOPQRSTUVWXYZ0123456789_''"
proof
  fix c assume "c \<in> set (sanitize_user s)"
  then have "user_char c" by (simp add: sanitize_user_def)
  from user_char_allowed[OF this]
  show "c \<in> set ''abcdefghijklmnopqrstuvwxyzABCDEFGHIJKLMNOPQRSTUVWXYZ0123456789_''"
    by simp
qed

lemma sanitize_host_chars:
  "set (sanitize_host s) \<subseteq> set ''abcdefghijklmnopqrstuvwxyzABCDEFGHIJKLMNOPQRSTUVWXYZ0123456789_%.:-''"
proof
  fix c assume "c \<in> set (sanitize_host s)"
  then have "host_char c" by (simp add: sanitize_host_def)
  from host_char_allowed[OF this]
  show "c \<in> set ''abcdefghijklmnopqrstuvwxyzABCDEFGHIJKLMNOPQRSTUVWXYZ0123456789_%.:-''"
    by simp
qed

text \<open>
  C4. For every string \<open>s\<close>, \<open>sanitize_user s\<close> has only characters of \<open>[A-Za-z0-9_]\<close>
  and is a subsequence of \<open>s\<close>, and \<open>sanitize_host s\<close> has only characters of
  \<open>[A-Za-z0-9_%.:-]\<close> and is a subsequence of \<open>s\<close>. Both are total functions of their
  argument alone, and the result may be empty, as it is for the string \<open>!\<close>.
\<close>

theorem sanitizers_allow_list_subsequence:
  "set (sanitize_user s) \<subseteq> set ''abcdefghijklmnopqrstuvwxyzABCDEFGHIJKLMNOPQRSTUVWXYZ0123456789_''
   \<and> subseq (sanitize_user s) s
   \<and> set (sanitize_host s) \<subseteq> set ''abcdefghijklmnopqrstuvwxyzABCDEFGHIJKLMNOPQRSTUVWXYZ0123456789_%.:-''
   \<and> subseq (sanitize_host s) s
   \<and> sanitize_user ''!'' = [] \<and> sanitize_host ''!'' = []"
proof -
  have "subseq (sanitize_user s) s" and "subseq (sanitize_host s) s"
    by (simp_all add: sanitize_user_def sanitize_host_def)
  moreover have "sanitize_user ''!'' = []" and "sanitize_host ''!'' = []"
    by (simp_all add: sanitize_user_def sanitize_host_def user_char_def host_char_def in_range_def)
  ultimately show ?thesis
    using sanitize_user_chars[of s] sanitize_host_chars[of s] by blast
qed

section \<open>What a call of \<open>exec_admin\<close> and of \<open>list_users\<close> leaves behind\<close>

lemma err_exec_admin:
  "snd (fst (exec_admin run sql params fetch w)) =
     (case run (store w) sql (case params of None \<Rightarrow> [] | Some ps \<Rightarrow> ps) of
        Inr r \<Rightarrow> None | Inl e \<Rightarrow> Some e)"
  by (simp add: exec_admin_def get_connection_def Let_def split: sum.split prod.split)

lemma sent_exec_admin:
  "sent (snd (exec_admin run sql params fetch w)) =
     sent w @ [(sql, case params of None \<Rightarrow> [] | Some ps \<Rightarrow> ps)]"
  by (simp add: exec_admin_def get_connection_def commit_def rollback_def Let_def
      split: sum.split prod.split)

lemma shown_exec_admin: "shown (snd (exec_admin run sql params fetch w)) = shown w"
  by (simp add: exec_admin_def get_connection_def commit_def rollback_def Let_def
      split: sum.split prod.split)

lemma store_exec_admin:
  "store (snd (exec_admin run sql params fetch w)) =
     (case run (store w) sql (case params of None \<Rightarrow> [] | Some ps \<Rightarrow> ps) of
        Inr r \<Rightarrow> fst r | Inl e \<Rightarrow> store w)"
  by (simp add: exec_admin_def get_connection_def commit_def rollback_def Let_def
      split: sum.split prod.split)

lemma sent_list_users:
  "sent (snd (list_users run w)) =
     sent w @ [(''SELECT user AS User, host AS Host FROM mysql.user ORDER BY user, host;'', [])]"
  by (simp add: list_users_def run_query_def st_warning_def Let_def split: sum.split prod.split)

lemma store_list_users: "store (snd (list_users run w)) = store w"
  by (simp add: list_users_def run_query_def st_warning_def Let_def split: sum.split prod.split)

lemma sent_st [simp]:
  "sent (st_error m w) = sent w" "sent (st_success m w) = sent w"
  "sent (st_warning m w) = sent w" "sent (st_info m w) = sent w"
  by (simp_all add: st_error_def st_success_def st_warning_def st_info_def)

lemma store_st [simp]:
  "store (st_error m w) = store w" "store (st_success m w) = store w"
  "store (st_warning m w) = store w" "store (st_info m w) = store w"
  by (simp_all add: st_error_def st_success_def st_warning_def st_info_def)

lemma shown_st [simp]:
  "shown (st_error m w) = shown w @ [StError m]" "shown (st_success m w) = shown w @ [StSuccess m]"
  "shown (st_warning m w) = shown w @ [StWarning m]" "shown (st_info m w) = shown w @ [StInfo m]"
  by (simp_all add: st_error_def st_success_def st_warning_def st_info_def)

lemmas exec_simps = err_exec_admin sent_exec_admin shown_exec_admin store_exec_admin
  sent_list_users store_list_users

lemma truthy_simps [simp]: "truthy None = False" "truthy (Some e) = (e \<noteq> [])"
  by (simp_all add: truthy_def)

lemma fmt_Some [simp]: "fmt (Some e) = e"
  by (simp add: fmt_def)

lemma sanitize_app_user: "sanitize_user ''app_user'' = ''app_user''"
  by (simp add: sanitize_user_def user_char_def in_range_def)

lemma sanitize_u: "sanitize_user ''u'' = ''u''"
  by (simp add: sanitize_user_def user_char_def in_range_def)

lemma sanitize_percent: "sanitize_host ''%'' = ''%''"
  by (simp add: sanitize_host_def host_char_def in_range_def)

section \<open>The statements of the operations\<close>

text \<open>
  C5. Creating the user \<open>app_user\<close> at host \<open>%\<close> with password \<open>p\<close> and the read-only
  preset on the schema \<open>asi\<close>, on a store that accepts both statements, sends the
  \<open>CREATE USER\<close> statement with \<open>p\<close> as its only bound parameter and then
  \<open>GRANT SELECT ON `asi`.* TO `app_user`@'%';\<close>, two statements in this order; with
  the preset \<open>None\<close> it sends the \<open>CREATE USER\<close> statement and no grant. What
  follows in both cases is the flush of the privilege cache and the query that
  refreshes the list of users.
\<close>

theorem create_user_read_only_statements:
  assumes "run (store w) ''CREATE USER `app_user`@'%' IDENTIFIED BY %s;'' [''p''] = Inr (db1, r1)"
  shows "(run db1 ''GRANT SELECT ON `asi`.* TO `app_user`@'%';'' [] = Inr (db2, r2) \<longrightarrow>
           issued w (create_user_handler run ''asi'' ''app_user'' ''%'' ''p'' ''Read-only (SELECT)'' w) =
             [(''CREATE USER `app_user`@'%' IDENTIFIED BY %s;'', [''p'']),
              (''GRANT SELECT ON `asi`.* TO `app_user`@'%';'', []),
              (''FLUSH PRIVILEGES;'', []),
              (''SELECT user AS User, host AS Host FROM mysql.user ORDER BY user, host;'', [])])
       \<and> issued w (create_user_handler run ''asi'' ''app_user'' ''%'' ''p'' ''None'' w) =
             [(''CREATE USER `app_user`@'%' IDENTIFIED BY %s;'', [''p'']),
              (''FLUSH PRIVILEGES;'', []),
              (''SELECT user AS User, host AS Host FROM mysql.user ORDER BY user, host;'', [])]"
  using assms
  by (simp add: create_user_handler_def issued_def Let_def str_or_def case_prod_beta exec_simps
      sanitize_app_user sanitize_percent)

theorem create_user_read_only_statements_witness:
  "issued w0 (create_user_handler accepting_store ''asi'' ''app_user'' ''%'' ''p'' ''Read-only (SELECT)'' w0) =
             [(''CREATE USER `app_user`@'%' IDENTIFIED BY %s;'', [''p'']),
              (''GRANT SELECT ON `asi`.* TO `app_user`@'%';'', []),
              (''FLUSH PRIVILEGES;'', []),
              (''SELECT user AS User, host AS Host FROM mysql.user ORDER BY user, host;'', [])]
   \<and> issued w0 (create_user_handler accepting_store ''asi'' ''app_user'' ''%'' ''p'' ''None'' w0) =
             [(''CREATE USER `app_user`@'%' IDENTIFIED BY %s;'', [''p'']),
              (''FLUSH PRIVILEGES;'', []),
              (''SELECT user AS User, host AS Host FROM mysql.user ORDER BY user, host;'', [])]"
proof -
  have a: "accepting_store (store w0) ''CREATE USER `app_user`@'%' IDENTIFIED BY %s;'' [''p'']
           = Inr ([''CREATE USER `app_user`@'%' IDENTIFIED BY %s;''], [])"
    by (simp add: accepting_store_def w0_def)
  have b: "accepting_store [''CREATE USER `app_user`@'%' IDENTIFIED BY %s;'']
             ''GRANT SELECT ON `asi`.* TO `app_user`@'%';'' []
           = Inr ([''CREATE USER `app_user`@'%' IDENTIFIED BY %s;'',
                   ''GRANT SELECT ON `asi`.* TO `app_user`@'%';''], [])"
    by (simp add: accepting_store_def)
  show ?thesis
    using create_user_read_only_statements[where run = accepting_store and w = w0, OF a] b
    by blast
qed

lemma join_butlast_last:
  "ps \<noteq> [] \<Longrightarrow> join sep ps = concat (map (\<lambda>p. p @ sep) (butlast ps)) @ last ps"
  by (induction sep ps rule: join.induct) simp_all

text \<open>
  C6. Granting a non-empty list of privileges to a user whose sanitized name is not
  empty sends exactly one \<open>GRANT\<close> statement, followed by the flush of the privilege
  cache when the store accepts it. Its privilege list is the comma-joined list of the
  privileges in the order given: every privilege but the last followed by a comma and
  a space, then the last. For the user \<open>u\<close> at \<open>%\<close>, the schema \<open>asi\<close> and the
  privileges \<open>SELECT\<close>, \<open>INSERT\<close> the statement is
  \<open>GRANT SELECT, INSERT ON `asi`.* TO `u`@'%';\<close>.
\<close>

theorem grant_statement_comma_joined:
  assumes "sanitize_user gr_user \<noteq> []" and "privs \<noteq> []"
  shows "issued w (grant_revoke_handler run schema gr_user gr_host ''GRANT'' privs w) \<in>
           {[(''GRANT '' @ join '', '' privs @ '' ON `'' @ schema @ ''`.* TO `''
                @ sanitize_user gr_user @ ''`@'' @ sq @ sanitize_host (str_or gr_host ''%'')
                @ ''';'', [])],
            [(''GRANT '' @ join '', '' privs @ '' ON `'' @ schema @ ''`.* TO `''
                @ sanitize_user gr_user @ ''`@'' @ sq @ sanitize_host (str_or gr_host ''%'')
                @ ''';'', []),
             (''FLUSH PRIVILEGES;'', [])]}
         \<and> join '', '' privs = concat (map (\<lambda>p. p @ '', '') (butlast privs)) @ last privs"
  using assms join_butlast_last[of privs "'', ''"]
  by (simp add: grant_revoke_handler_def issued_def Let_def case_prod_beta exec_simps)

theorem grant_statement_comma_joined_witness:
  "issued w0 (grant_revoke_handler accepting_store ''asi'' ''u'' ''%'' ''GRANT''
       [''SELECT'', ''INSERT''] w0) \<in>
     {[(''GRANT SELECT, INSERT ON `asi`.* TO `u`@'%';'', [])],
      [(''GRANT SELECT, INSERT ON `asi`.* TO `u`@'%';'', []), (''FLUSH PRIVILEGES;'', [])]}"
  using grant_statement_comma_joined[of "''u''" "[''SELECT'', ''INSERT'']" w0 accepting_store
      "''asi''" "''%''"]
  by (simp add: sanitize_u sanitize_percent str_or_def)

text \<open>
  C10. In creating a user, changing a password, granting, revoking and dropping a user,
  an empty host input is replaced by \<open>%\<close> before it is sanitized, so the statement
  that is sent addresses the host \<open>'%'\<close>. A host input that is not empty and that the
  sanitizer empties is not rejected: the statement is sent with the empty host.
\<close>

theorem empty_host_defaults_to_percent:
  assumes "sanitize_user user \<noteq> []" and "secret \<noteq> []" and "privs \<noteq> []"
  shows "take 1 (issued w (create_user_handler run schema user [] secret preset w)) =
           [(''CREATE USER `'' @ sanitize_user user @ ''`@'%' IDENTIFIED BY %s;'', [secret])]
       \<and> take 1 (issued w (update_password_handler run user [] secret w)) =
           [(''ALTER USER `'' @ sanitize_user user @ ''`@'%' IDENTIFIED BY %s;'', [secret])]
       \<and> take 1 (issued w (grant_revoke_handler run schema user [] ''GRANT'' privs w)) =
           [(''GRANT '' @ join '', '' privs @ '' ON `'' @ schema @ ''`.* TO `''
               @ sanitize_user user @ ''`@'%';'', [])]
       \<and> take 1 (issued w (grant_revoke_handler run schema user [] ''REVOKE'' privs w)) =
           [(''REVOKE '' @ join '', '' privs @ '' ON `'' @ schema @ ''`.* FROM `''
               @ sanitize_user user @ ''`@'%';'', [])]
       \<and> take 1 (issued w (drop_user_handler run user [] w)) =
           [(''DROP USER `'' @ sanitize_user user @ ''`@'%';'', [])]
       \<and> (host \<noteq> [] \<and> sanitize_host host = [] \<longrightarrow>
            take 1 (issued w (create_user_handler run schema user host secret preset w)) =
              [(''CREATE USER `'' @ sanitize_user user @ ''`@'' @ sq @ sq @ '' IDENTIFIED BY %s;'',
                [secret])]
          \<and> take 1 (issued w (update_password_handler run user host secret w)) =
              [(''ALTER USER `'' @ sanitize_user user @ ''`@'' @ sq @ sq @ '' IDENTIFIED BY %s;'',
                [secret])]
          \<and> take 1 (issued w (grant_revoke_handler run schema user host ''GRANT'' privs w)) =
              [(''GRANT '' @ join '', '' privs @ '' ON `'' @ schema @ ''`.* TO `''
                  @ sanitize_user user @ ''`@'' @ sq @ sq @ '';'', [])]
          \<and> take 1 (issued w (grant_revoke_handler run schema user host ''REVOKE'' privs w)) =
              [(''REVOKE '' @ join '', '' privs @ '' ON `'' @ schema @ ''`.* FROM `''
                  @ sanitize_user user @ ''`@'' @ sq @ sq @ '';'', [])]
          \<and> take 1 (issued w (drop_user_handler run user host w)) =
              [(''DROP USER `'' @ sanitize_user user @ ''`@'' @ sq @ sq @ '';'', [])])"
proof -
  have c1: "take 1 (issued w (create_user_handler run schema user h secret preset w)) =
      [(''CREATE USER `'' @ sanitize_user user @ ''`@'' @ sq @ sanitize_host (str_or h ''%'')
          @ ''' IDENTIFIED BY %s;'', [secret])]" for h
    using assms
    by (simp add: create_user_handler_def issued_def Let_def case_prod_beta exec_simps)
  have c2: "take 1 (issued w (update_password_handler run user h secret w)) =
      [(''ALTER USER `'' @ sanitize_user user @ ''`@'' @ sq @ sanitize_host (str_or h ''%'')
          @ ''' IDENTIFIED BY %s;'', [secret])]" for h
    using assms
    by (simp add: update_password_handler_def issued_def Let_def case_prod_beta exec_simps)
  have c3: "take 1 (issued w (grant_revoke_handler run schema user h ''GRANT'' privs w)) =
      [(''GRANT '' @ join '', '' privs @ '' ON `'' @ schema @ ''`.* TO `''
          @ sanitize_user user @ ''`@'' @ sq @ sanitize_host (str_or h ''%'') @ ''';'', [])]" for h
    using assms
    by (simp add: grant_revoke_handler_def issued_def Let_def case_prod_beta exec_simps)
  have c4: "take 1 (issued w (grant_revoke_handler run schema user h ''REVOKE'' privs w)) =
      [(''REVOKE '' @ join '', '' privs @ '' ON `'' @ schema @ ''`.* FROM `''
          @ sanitize_user user @ ''`@'' @ sq @ sanitize_host (str_or h ''%'') @ ''';'', [])]" for h
    using assms
    by (simp add: grant_revoke_handler_def issued_def Let_def case_prod_beta exec_simps)
  have c5: "take 1 (issued w (drop_user_handler run user h w)) =
      [(''DROP USER `'' @ sanitize_user user @ ''`@'' @ sq @ sanitize_host (str_or h ''%'')
          @ ''';'', [])]" for h
    using assms
    by (simp add: drop_user_handler_def issued_def Let_def case_prod_beta exec_simps)
  have e: "sanitize_host (str_or [] ''%'') = ''%''"
    by (simp add: str_or_def sanitize_percent)
  have n: "sanitize_host (str_or host ''%'') = []" if "host \<noteq> []" "sanitize_host host = []"
    using that by (simp add: str_or_def)
  show ?thesis
    using c1[of "[]"] c2[of "[]"] c3[of "[]"] c4[of "[]"] c5[of "[]"]
      c1[of host] c2[of host] c3[of host] c4[of host] c5[of host] n
    by (simp add: e)
qed

lemma sanitize_bangs: "sanitize_host ''!!'' = []"
  by (simp add: sanitize_host_def host_char_def in_range_def)

theorem empty_host_defaults_to_percent_witness:
  "take 1 (issued w0 (create_user_handler accepting_store ''asi'' ''u'' [] ''p'' ''None'' w0)) =
     [(''CREATE USER `u`@'%' IDENTIFIED BY %s;'', [''p''])]
   \<and> take 1 (issued w0 (update_password_handler accepting_store ''u'' [] ''p'' w0)) =
     [(''ALTER USER `u`@'%' IDENTIFIED BY %s;'', [''p''])]
   \<and> take 1 (issued w0 (grant_revoke_handler accepting_store ''asi'' ''u'' [] ''GRANT'' [''SELECT''] w0)) =
     [(''GRANT SELECT ON `asi`.* TO `u`@'%';'', [])]
   \<and> take 1 (issued w0 (grant_revoke_handler accepting_store ''asi'' ''u'' [] ''REVOKE'' [''SELECT''] w0)) =
     [(''REVOKE SELECT ON `asi`.* FROM `u`@'%';'', [])]
   \<and> take 1 (issued w0 (drop_user_handler accepting_store ''u'' [] w0)) =
     [(''DROP USER `u`@'%';'', [])]
   \<and> sanitize_host ''!!'' = []
   \<and> take 1 (issued w0 (create_user_handler accepting_store ''asi'' ''u'' ''!!'' ''p'' ''None'' w0)) =
     [(''CREATE USER `u`@'' @ sq @ sq @ '' IDENTIFIED BY %s;'', [''p''])]
   \<and> take 1 (issued w0 (update_password_handler accepting_store ''u'' ''!!'' ''p'' w0)) =
     [(''ALTER USER `u`@'' @ sq @ sq @ '' IDENTIFIED BY %s;'', [''p''])]
   \<and> take 1 (issued w0 (grant_revoke_handler accepting_store ''asi'' ''u'' ''!!'' ''GRANT'' [''SELECT''] w0)) =
     [(''GRANT SELECT ON `asi`.* TO `u`@'' @ sq @ sq @ '';'', [])]
   \<and> take 1 (issued w0 (grant_revoke_handler accepting_store ''asi'' ''u'' ''!!'' ''REVOKE'' [''SELECT''] w0)) =
     [(''REVOKE SELECT ON `asi`.* FROM `u`@'' @ sq @ sq @ '';'', [])]
   \<and> take 1 (issued w0 (drop_user_handler accepting_store ''u'' ''!!'' w0)) =
     [(''DROP USER `u`@'' @ sq @ sq @ '';'', [])]"
  using empty_host_defaults_to_percent[of "''u''" "''p''" "[''SELECT'']" w0 accepting_store
      "''asi''" "''None''" "''!!''"]
  by (simp add: sanitize_u sanitize_bangs)

section \<open>What the page reports\<close>



section \<open>The flush of the privilege cache\<close>





section \<open>Sanitization and validation in the handlers\<close>

lemma sent_get_grants:
  "sent (snd (get_grants run user host w)) =
     sent w @ [(''SHOW GRANTS FOR `'' @ user @ ''`@'' @ sq @ host @ ''';'', [])]"
  by (simp add: get_grants_def get_connection_def commit_def Let_def
      split: sum.split prod.split option.split)

text \<open>
  C1. The claim is that every user name and host passes through the sanitizer before it
  is put into statement text, in showing grants as in the other operations. The
  handler of "Show Grants" passes its two inputs to \<open>get_grants\<close> as they are: for the
  user input \<open>a`b\<close> and the host input \<open>h'x\<close> the statement sent is
  \<open>SHOW GRANTS FOR `a`b`@'h'x';\<close>, with the backquote and the quote that the
  sanitizers would have removed.
\<close>

theorem show_grants_interpolates_raw_input:
  "issued w (show_grants_handler run ''a`b'' ''h'x'' w) = [(''SHOW GRANTS FOR `a`b`@'h'x';'', [])]
   \<and> sanitize_user ''a`b'' = ''ab'' \<and> sanitize_host ''h'x'' = ''hx''"
proof -
  have "sent (show_grants_handler run ''a`b'' ''h'x'' w) =
          sent (snd (get_grants run ''a`b'' ''h'x'' w))"
    by (simp add: show_grants_handler_def case_prod_beta)
  then have "issued w (show_grants_handler run ''a`b'' ''h'x'' w) =
      [(''SHOW GRANTS FOR `a`b`@'h'x';'', [])]"
    by (simp add: issued_def sent_get_grants)
  moreover have "sanitize_user ''a`b'' = ''ab''"
    by (simp add: sanitize_user_def user_char_def in_range_def)
  moreover have "sanitize_host ''h'x'' = ''hx''"
    by (simp add: sanitize_host_def host_char_def in_range_def)
  ultimately show ?thesis by simp
qed





section \<open>The secret and the statement text\<close>

lemma create_user_texts_prefix:
  "prefix (map fst (issued w (create_user_handler run schema user host secret preset w)))
     ([''CREATE USER `'' @ sanitize_user user @ ''`@'' @ sq
         @ sanitize_host (str_or host ''%'') @ ''' IDENTIFIED BY %s;''] @
      (if startswith preset ''Read-only'' then
         [''GRANT SELECT ON `'' @ schema @ ''`.* TO `'' @ sanitize_user user @ ''`@''
            @ sq @ sanitize_host (str_or host ''%'') @ ''';'']
       else if startswith preset ''Read/Write'' then
         [''GRANT SELECT, INSERT, UPDATE, DELETE, EXECUTE ON `'' @ schema
            @ ''`.* TO `'' @ sanitize_user user @ ''`@'' @ sq
            @ sanitize_host (str_or host ''%'') @ ''';'']
       else if startswith preset ''Admin'' then
         [''GRANT ALL PRIVILEGES ON `'' @ schema @ ''`.* TO `'' @ sanitize_user user
            @ ''`@'' @ sq @ sanitize_host (str_or host ''%'') @ ''';'']
       else []) @
      [''FLUSH PRIVILEGES;'',
       ''SELECT user AS User, host AS Host FROM mysql.user ORDER BY user, host;''])"
  by (simp add: create_user_handler_def issued_def Let_def case_prod_beta exec_simps
      split: sum.split)

lemma update_password_texts_prefix:
  "prefix (map fst (issued w (update_password_handler run user host secret w)))
     [''ALTER USER `'' @ sanitize_user user @ ''`@'' @ sq
         @ sanitize_host (str_or host ''%'') @ ''' IDENTIFIED BY %s;'',
      ''FLUSH PRIVILEGES;'']"
  by (simp add: update_password_handler_def issued_def Let_def case_prod_beta exec_simps
      split: sum.split)

text \<open>
  C3. In creating a user and in changing a password the password is the bound
  parameter of the first statement and the statement text is built without it. For
  two passwords and the same other inputs, on the same store in the same state, the
  texts of the statements sent agree position by position: one list of texts is a
  prefix of the other (the lists differ in length when the store accepts one password
  and rejects the other, or when one password is empty and nothing is sent). When
  both passwords are accepted by the validation, the first statement has the same
  text in both runs and the password as its only parameter.
\<close>

theorem secret_only_in_bound_parameters:
  "(prefix (map fst (issued w (create_user_handler run schema user host p1 preset w)))
           (map fst (issued w (create_user_handler run schema user host p2 preset w)))
    \<or> prefix (map fst (issued w (create_user_handler run schema user host p2 preset w)))
           (map fst (issued w (create_user_handler run schema user host p1 preset w))))
   \<and> (prefix (map fst (issued w (update_password_handler run user host p1 w)))
           (map fst (issued w (update_password_handler run user host p2 w)))
    \<or> prefix (map fst (issued w (update_password_handler run user host p2 w)))
           (map fst (issued w (update_password_handler run user host p1 w))))
   \<and> (sanitize_user user \<noteq> [] \<and> p1 \<noteq> [] \<and> p2 \<noteq> [] \<longrightarrow>
        take 1 (issued w (create_user_handler run schema user host p1 preset w)) =
          [(''CREATE USER `'' @ sanitize_user user @ ''`@'' @ sq
              @ sanitize_host (str_or host ''%'') @ ''' IDENTIFIED BY %s;'', [p1])]
      \<and> take 1 (issued w (create_user_handler run schema user host p2 preset w)) =
          [(''CREATE USER `'' @ sanitize_user user @ ''`@'' @ sq
              @ sanitize_host (str_or host ''%'') @ ''' IDENTIFIED BY %s;'', [p2])]
      \<and> take 1 (issued w (update_password_handler run user host p1 w)) =
          [(''ALTER USER `'' @ sanitize_user user @ ''`@'' @ sq
              @ sanitize_host (str_or host ''%'') @ ''' IDENTIFIED BY %s;'', [p1])]
      \<and> take 1 (issued w (update_password_handler run user host p2 w)) =
          [(''ALTER USER `'' @ sanitize_user user @ ''`@'' @ sq
              @ sanitize_host (str_or host ''%'') @ ''' IDENTIFIED BY %s;'', [p2])])"
  (is "?a \<and> ?b \<and> ?c")
proof -
  have ?a
    using create_user_texts_prefix[of w run schema user host p1 preset]
      create_user_texts_prefix[of w run schema user host p2 preset]
    by (rule prefix_same_cases)
  moreover have ?b
    using update_password_texts_prefix[of w run user host p1]
      update_password_texts_prefix[of w run user host p2]
    by (rule prefix_same_cases)
  moreover have ?c
    by (simp add: create_user_handler_def update_password_handler_def issued_def Let_def
        case_prod_beta exec_simps)
  ultimately show ?thesis by blast
qed

theorem secret_only_in_bound_parameters_witness:
  "take 1 (issued w0 (create_user_handler accepting_store ''asi'' ''app_user'' ''%'' ''p''
       ''None'' w0)) = [(''CREATE USER `app_user`@'%' IDENTIFIED BY %s;'', [''p''])]
   \<and> take 1 (issued w0 (create_user_handler accepting_store ''asi'' ''app_user'' ''%'' ''q''
       ''None'' w0)) = [(''CREATE USER `app_user`@'%' IDENTIFIED BY %s;'', [''q''])]
   \<and> take 1 (issued w0 (update_password_handler accepting_store ''app_user'' ''%'' ''p'' w0)) =
       [(''ALTER USER `app_user`@'%' IDENTIFIED BY %s;'', [''p''])]
   \<and> take 1 (issued w0 (update_password_handler accepting_store ''app_user'' ''%'' ''q'' w0)) =
       [(''ALTER USER `app_user`@'%' IDENTIFIED BY %s;'', [''q''])]"
  using secret_only_in_bound_parameters[of w0 accepting_store "''asi''" "''app_user''" "''%''"
      "''p''" "''None''" "''q''"]
  by (simp add: sanitize_app_user sanitize_percent str_or_def)

section \<open>Rollback\<close>




end
